theory Spec2Isabelle
  imports Main
begin

section \<open>Python values used by the hooks\<close>

text \<open>
  The exceptions that the hooks raise, catch or let through. The three location errors are the
  SDK's \<^verbatim>\<open>ftrack_api.exception\<close> classes: \<^verbatim>\<open>ComponentInLocationError\<close> and
  \<^verbatim>\<open>ComponentNotInLocationError\<close> both derive from \<^verbatim>\<open>LocationError\<close>. \<^verbatim>\<open>ServerError\<close> stands
  for a failure of the entity catalog (an unreachable server, a malformed filter); the others
  are Python's own.
\<close>

datatype exn =
    ComponentInLocationError
  | ComponentNotInLocationError
  | LocationError
  | ServerError
  | AttributeError
  | TypeError
  | KeyError
  | IndexError

text \<open>\<^verbatim>\<open>except cls:\<close> catches an exception whose class is \<open>cls\<close> or derives from it.\<close>

fun isinstance :: "exn \<Rightarrow> exn \<Rightarrow> bool" where
  "isinstance e cls =
     (e = cls \<or> (cls = LocationError \<and> (e = ComponentInLocationError \<or> e = ComponentNotInLocationError)))"

definition dq :: string where
  "dq = [CHR 0x22]"

definition digit_char :: "nat \<Rightarrow> char" where
  "digit_char d = ''0123456789'' ! d"

text \<open>\<^verbatim>\<open>'{0}'.format(n)\<close> for a non-negative integer: its decimal digits.\<close>

fun str_nat :: "nat \<Rightarrow> string" where
  "str_nat n = (if n < 10 then [digit_char n] else str_nat (n div 10) @ [digit_char (n mod 10)])"

declare str_nat.simps [simp del]

text \<open>\<^verbatim>\<open>sep.join(parts)\<close>.\<close>

fun join :: "string \<Rightarrow> string list \<Rightarrow> string" where
  "join sep [] = []"
| "join sep [x] = x"
| "join sep (x # y # ys) = x @ sep @ join sep (y # ys)"





text \<open>\<^verbatim>\<open>xs[i]\<close> for a non-negative index: IndexError out of range.\<close>

definition py_index :: "'a list \<Rightarrow> nat \<Rightarrow> exn + 'a" where
  "py_index xs i = (if i < length xs then Inr (xs ! i) else Inl IndexError)"


section \<open>Data model of the transfer action\<close>

type_synonym component = string

record selection_item =
  entityType :: string
  entityId :: string

text \<open>
  A Location entity as the action reads it: \<open>loc_label\<close> is \<open>None\<close> for Python's \<^verbatim>\<open>None\<close>,
  \<open>loc_accessor\<close> is the truth value of \<^verbatim>\<open>location.accessor\<close>.
\<close>

record location =
  loc_id :: string
  loc_name :: string
  loc_label :: "string option"
  loc_accessor :: bool
  loc_priority :: int

datatype job_status = Running | Done | Failed

text \<open>
  The Job entity: \<open>job_status\<close> is one of the strings \<^verbatim>\<open>'running'\<close>, \<^verbatim>\<open>'done'\<close>, \<^verbatim>\<open>'failed'\<close>,
  \<open>job_data\<close> the JSON text stored in \<^verbatim>\<open>job['data']\<close>.
\<close>

record job =
  job_user_id :: "string option"
  job_status :: job_status
  job_data :: string

text \<open>\<^verbatim>\<open>json.dumps({'description': d})\<close>, for a description without characters to escape.\<close>

definition json_description :: "string \<Rightarrow> string" where
  "json_description d = ''{'' @ dq @ ''description'' @ dq @ '': '' @ dq @ d @ dq @ ''}''"

definition gathering_description :: string where
  "gathering_description = ''Transfer components (Gathering...)''"

definition progress_description :: "nat \<Rightarrow> nat \<Rightarrow> string" where
  "progress_description index amount =
     ''Transfer components ('' @ str_nat index @ '' of '' @ str_nat amount @ '')''"

text \<open>The messages the engine logs, by the line of \<^verbatim>\<open>transfer_components\<close> that writes them.\<close>

datatype message =
    CreatingJob "string option"
  | TransferringTotal nat
  | TransferringComponent nat nat
  | AlreadyInTarget component
  | FailedToAdd exn
  | TransferComplete nat
  | TransferFailed exn

text \<open>
  Everything one invocation does to the outside, in the order it does it: the Job it creates,
  each snapshot of the Job that a \<^verbatim>\<open>session.commit()\<close> persists, each rollback, each call of
  \<^verbatim>\<open>target_location.add_component\<close> with what it raised (\<open>None\<close>: it returned, the bytes were
  copied), and each log record (\<^verbatim>\<open>logger.info\<close>, \<^verbatim>\<open>logger.exception\<close>).
\<close>

datatype event =
    Created job
  | Committed job
  | RolledBack
  | CopyAttempt component "exn option"
  | LogInfo message
  | LogException message

text \<open>
  The state one invocation works on: its in-memory Job entity, the Job as last persisted, the
  presence records of the Location Service (location id, component) and the trace so far.
\<close>

record world =
  job :: job
  server_job :: "job option"
  present :: "(string \<times> component) list"
  trace :: "event list"

text \<open>
  The collaborators: \<open>query\<close> is \<^verbatim>\<open>session.query(text).all()\<close> on the entity catalog,
  \<open>hash_rank\<close> orders the iteration of a Python set of components, \<open>copy_fault\<close> is what the
  byte transfer of a component raises when the presence checks pass.
\<close>

record env =
  query :: "string \<Rightarrow> exn + component list"
  hash_rank :: "component \<Rightarrow> nat"
  copy_fault :: "component \<Rightarrow> exn option"

record request =
  req_entities :: "selection_item list"
  req_source :: "location option"
  req_target :: "location option"
  req_user_id :: "string option"
  ignore_component_not_in_location :: bool
  ignore_location_errors :: bool

section \<open>Session and Location Service\<close>

definition emit :: "event \<Rightarrow> world \<Rightarrow> world" where
  "emit e w = w\<lparr>trace := trace w @ [e]\<rparr>"

definition log_info :: "message \<Rightarrow> world \<Rightarrow> world" where
  "log_info m w = emit (LogInfo m) w"

definition log_exception :: "message \<Rightarrow> world \<Rightarrow> world" where
  "log_exception m w = emit (LogException m) w"

text \<open>
  \<^verbatim>\<open>session.commit()\<close> persists the Job as it stands; \<^verbatim>\<open>session.rollback()\<close> resets the
  in-memory Job to what was last persisted. Both are calls into the SDK and are taken to
  return: the interface description of the catalog gives job persistence no failure mode.
\<close>

definition commit :: "world \<Rightarrow> world" where
  "commit w = emit (Committed (job w)) (w\<lparr>server_job := Some (job w)\<rparr>)"

definition rollback :: "world \<Rightarrow> world" where
  "rollback w = emit RolledBack (case server_job w of None \<Rightarrow> w | Some j \<Rightarrow> w\<lparr>job := j\<rparr>)"

definition set_status :: "job_status \<Rightarrow> world \<Rightarrow> world" where
  "set_status s w = w\<lparr>job := (job w)\<lparr>job_status := s\<rparr>\<rparr>"

definition set_data :: "string \<Rightarrow> world \<Rightarrow> world" where
  "set_data d w = w\<lparr>job := (job w)\<lparr>job_data := d\<rparr>\<rparr>"

text \<open>
  Modelled from the spec: the Location Service's "copy component X from location A into this
  location" (\<^verbatim>\<open>Location.add_component\<close> of the SDK, which is not part of this repository).
  It raises already-present when the target holds the component, not-present-at-source when
  the source does not, whatever the byte transfer raises otherwise, and records the component
  in the target when it returns. Calling it on \<^verbatim>\<open>None\<close> (a location id that
  \<^verbatim>\<open>session.get\<close> did not find) is Python's AttributeError.
\<close>

definition copy_outcome ::
  "env \<Rightarrow> location option \<Rightarrow> location option \<Rightarrow> (string \<times> component) list \<Rightarrow> component \<Rightarrow> exn option" where
  "copy_outcome env target source pres c =
     (case target of
        None \<Rightarrow> Some AttributeError
      | Some t \<Rightarrow>
          if (loc_id t, c) \<in> set pres then Some ComponentInLocationError
          else (case source of
                  None \<Rightarrow> Some AttributeError
                | Some s \<Rightarrow>
                    if (loc_id s, c) \<notin> set pres then Some ComponentNotInLocationError
                    else copy_fault env c))"

definition add_component ::
  "env \<Rightarrow> location option \<Rightarrow> component \<Rightarrow> location option \<Rightarrow> world \<Rightarrow> exn option \<times> world" where
  "add_component env target c source w =
     (let outcome = copy_outcome env target source (present w) c;
          pres = (case (outcome, target) of
                    (None, Some t) \<Rightarrow> (loc_id t, c) # present w
                  | _ \<Rightarrow> present w)
      in (outcome, emit (CopyAttempt c outcome) (w\<lparr>present := pres\<rparr>)))"

section \<open>Selection resolver\<close>

text \<open>
  \<^verbatim>\<open>get_components_in_location\<close>, without its \<^verbatim>\<open>logger.info\<close> lines: the resolver has no other
  effect, and no statement below is about what it logs.
\<close>

definition get_filter_string :: "string list \<Rightarrow> string" where
  "get_filter_string entity_ids = join '', '' (map (\<lambda>entity_id. dq @ entity_id @ dq) entity_ids)"

text \<open>
  \<^verbatim>\<open>entity_groups\<close> is a \<^verbatim>\<open>defaultdict(list)\<close>: a key never appended to reads as the empty list.
\<close>

fun group_entities :: "selection_item list \<Rightarrow> (string \<Rightarrow> string list) \<Rightarrow> (string \<Rightarrow> string list)" where
  "group_entities [] groups = groups"
| "group_entities (selection # rest) groups =
     group_entities rest (groups(entityType selection := groups (entityType selection) @ [entityId selection]))"

definition project_query :: "string \<Rightarrow> string" where
  "project_query ids =
     ''Component where (version.asset.parent.project.id in ('' @ ids @ '') or '' @
     ''version.asset.parent.id in ('' @ ids @ ''))''"

definition context_query :: "string \<Rightarrow> string" where
  "context_query ids =
     ''Component where (version.asset.parent.ancestors.id in ('' @ ids @ '') or '' @
     ''version.asset.parent.id in ('' @ ids @ ''))''"

definition version_query :: "string \<Rightarrow> string" where
  "version_query ids = ''Component where version_id in ('' @ ids @ '')''"

definition component_query :: "string \<Rightarrow> string" where
  "component_query ids = ''Component where id in ('' @ ids @ '')''"

definition component_queries :: "(string \<Rightarrow> string list) \<Rightarrow> string list" where
  "component_queries entity_groups =
     (if entity_groups ''Project'' \<noteq> []
      then [project_query (get_filter_string (entity_groups ''Project''))] else []) @
     (if entity_groups ''TypedContext'' \<noteq> []
      then [context_query (get_filter_string (entity_groups ''TypedContext''))] else []) @
     (if entity_groups ''assetversion'' \<noteq> []
      then [version_query (get_filter_string (entity_groups ''assetversion''))] else []) @
     (if entity_groups ''Component'' \<noteq> []
      then [component_query (get_filter_string (entity_groups ''Component''))] else [])"

definition in_location :: "string \<Rightarrow> string \<Rightarrow> string" where
  "in_location query_string location_id =
     query_string @ '' and component_locations.location_id is '' @ dq @ location_id @ dq"

text \<open>
  A Python set of components, as the list of its members without repetition;
  \<^verbatim>\<open>components.update(found)\<close> adds the members it does not hold yet.
\<close>

fun set_update :: "component list \<Rightarrow> component list \<Rightarrow> component list" where
  "set_update components [] = components"
| "set_update components (c # found) =
     set_update (if c \<in> set components then components else components @ [c]) found"

text \<open>
  The query loop. \<^verbatim>\<open>location['id']\<close> is evaluated for each query, so a missing location
  (\<^verbatim>\<open>None\<close>) is a TypeError at the first query and goes unnoticed when there is none.
\<close>

fun run_queries :: "env \<Rightarrow> location option \<Rightarrow> string list \<Rightarrow> component list \<Rightarrow> exn + component list" where
  "run_queries env location [] components = Inr components"
| "run_queries env location (query_string # rest) components =
     (case location of
        None \<Rightarrow> Inl TypeError
      | Some l \<Rightarrow>
          (case query env (in_location query_string (loc_id l)) of
             Inl e \<Rightarrow> Inl e
           | Inr found \<Rightarrow> run_queries env location rest (set_update components found)))"

text \<open>
  \<^verbatim>\<open>list(components)\<close> enumerates the set in an order Python does not specify; the model
  takes the order from \<open>hash_rank\<close>.
\<close>

definition get_components_in_location ::
  "env \<Rightarrow> selection_item list \<Rightarrow> location option \<Rightarrow> exn + component list" where
  "get_components_in_location env entities location =
     (case run_queries env location (component_queries (group_entities entities (\<lambda>_. []))) [] of
        Inl e \<Rightarrow> Inl e
      | Inr components \<Rightarrow> Inr (sort_key (hash_rank env) components))"

section \<open>Transfer engine\<close>

text \<open>
  Lines 277 to 292 of \<^verbatim>\<open>transfer_components\<close>: one copy and its \<^verbatim>\<open>except\<close> clauses, in the
  order of the source. The result is the exception that leaves the \<^verbatim>\<open>try\<close>, if any.
\<close>

definition copy_step :: "env \<Rightarrow> request \<Rightarrow> component \<Rightarrow> world \<Rightarrow> exn option \<times> world" where
  "copy_step env req c w =
     (case add_component env (req_target req) c (req_source req) w of
        (None, w') \<Rightarrow> (None, w')
      | (Some e, w') \<Rightarrow>
          if isinstance e ComponentInLocationError then (None, log_info (AlreadyInTarget c) w')
          else if isinstance e ComponentNotInLocationError then
            (if ignore_component_not_in_location req \<or> ignore_location_errors req
             then (None, log_exception (FailedToAdd e) w')
             else (Some e, w'))
          else if isinstance e LocationError then
            (if ignore_location_errors req
             then (None, log_exception (FailedToAdd e) w')
             else (Some e, w'))
          else (Some e, w'))"

text \<open>The \<^verbatim>\<open>for index, component in enumerate(components, start=1)\<close> loop.\<close>

fun transfer_loop ::
  "env \<Rightarrow> request \<Rightarrow> nat \<Rightarrow> nat \<Rightarrow> component list \<Rightarrow> world \<Rightarrow> exn option \<times> world" where
  "transfer_loop env req amount index [] w = (None, w)"
| "transfer_loop env req amount index (c # rest) w =
     (let w1 = log_info (TransferringComponent index amount) w;
          w2 = commit (set_data (json_description (progress_description index amount)) w1)
      in case copy_step env req c w2 of
           (Some e, w3) \<Rightarrow> (Some e, w3)
         | (None, w3) \<Rightarrow> transfer_loop env req amount (Suc index) rest w3)"

text \<open>The body of the outer \<^verbatim>\<open>try\<close> (lines 258 to 297).\<close>

definition try_body :: "env \<Rightarrow> request \<Rightarrow> world \<Rightarrow> exn option \<times> world" where
  "try_body env req w =
     (case get_components_in_location env (req_entities req) (req_source req) of
        Inl e \<Rightarrow> (Some e, w)
      | Inr components \<Rightarrow>
          (let amount = length components;
               w1 = log_info (TransferringTotal amount) w
           in case transfer_loop env req amount 1 components w1 of
                (Some e, w2) \<Rightarrow> (Some e, w2)
              | (None, w2) \<Rightarrow> (None, log_info (TransferComplete amount) (commit (set_status Done w2)))))"

text \<open>
  One run of \<^verbatim>\<open>transfer_components\<close> (the body of the thread that \<^verbatim>\<open>_async\<close> starts), from the
  presence records it finds to the state it leaves.
\<close>

definition new_job :: "request \<Rightarrow> job" where
  "new_job req =
     \<lparr>job_user_id = req_user_id req, job_status = Running,
      job_data = json_description gathering_description\<rparr>"

text \<open>Lines 240 to 256: the Job is created with status running and persisted.\<close>

definition create_job :: "request \<Rightarrow> (string \<times> component) list \<Rightarrow> world" where
  "create_job req pres =
     commit (log_info (CreatingJob (req_user_id req))
       \<lparr>job = new_job req, server_job = None, present = pres, trace = [Created (new_job req)]\<rparr>)"

text \<open>Lines 299 to 303: the handler of \<^verbatim>\<open>except BaseException\<close>, which catches every exception.\<close>

definition on_failure :: "exn \<Rightarrow> world \<Rightarrow> world" where
  "on_failure e w = commit (set_status Failed (rollback (log_exception (TransferFailed e) w)))"

definition transfer_components :: "env \<Rightarrow> request \<Rightarrow> (string \<times> component) list \<Rightarrow> world" where
  "transfer_components env req pres =
     (case try_body env req (create_job req pres) of
        (None, w) \<Rightarrow> w
      | (Some e, w) \<Rightarrow> on_failure e w)"

section \<open>Launch and interface handlers of the action\<close>

text \<open>
  The action's own session: \<open>get_location\<close> is \<^verbatim>\<open>session.get('Location', id)\<close> (\<open>None\<close> when
  there is no such entity), \<open>all_locations\<close> is
  \<^verbatim>\<open>session.query('select name, label from Location').all()\<close>.
\<close>

record catalog =
  get_location :: "string \<Rightarrow> location option"
  all_locations :: "location list"

text \<open>
  What the handlers read of an action event: \<^verbatim>\<open>event['data']['values']\<close> when the key is
  there, \<^verbatim>\<open>event['data']['selection']\<close> and \<^verbatim>\<open>event['source']['user']['id']\<close>.
\<close>

record action_event =
  ev_values :: "(string \<times> string) list option"
  ev_selection :: "selection_item list option"
  ev_user_id :: "string option"

definition excluded_locations :: "string list" where
  "excluded_locations =
     [''ftrack.origin'', ''ftrack.connect'', ''ftrack.server'', ''ftrack.unmanaged'', ''ftrack.review'']"

text \<open>An item of the form: a label, or an enumerator with label, name, value and options.\<close>

datatype item =
    Label string
  | Enumerator string string string "(string \<times> string) list"

definition yes_no :: "(string \<times> string) list" where
  "yes_no = [(''Yes'', ''true''), (''No'', ''false'')]"

text \<open>\<^verbatim>\<open>location['label'] or location['name']\<close>.\<close>

definition label_or_name :: "location \<Rightarrow> string" where
  "label_or_name l = (case loc_label l of None \<Rightarrow> loc_name l | Some t \<Rightarrow> if t = [] then loc_name l else t)"

text \<open>
  \<^verbatim>\<open>interface\<close>: the form when no values were submitted, \<^verbatim>\<open>None\<close> otherwise. Each option is
  the pair of its label and its value.
\<close>

definition interface :: "catalog \<Rightarrow> (string \<times> string) list \<Rightarrow> exn + item list option" where
  "interface session submitted =
     (if submitted = [] then
        (let locations = filter loc_accessor (all_locations session);
             locations = sort_key loc_priority locations;
             locations = filter (\<lambda>location. loc_name location \<notin> set excluded_locations) locations;
             locations_options = map (\<lambda>location. (label_or_name location, loc_id location)) locations
         in case py_index locations_options 0 of
              Inl e \<Rightarrow> Inl e
            | Inr from_default \<Rightarrow>
                (case py_index locations_options 1 of
                   Inl e \<Rightarrow> Inl e
                 | Inr to_default \<Rightarrow>
                     Inr (Some
                       [Label ''Transfer components between locations'',
                        Enumerator ''From location'' ''from_location'' (snd from_default) locations_options,
                        Enumerator ''To location'' ''to_location'' (snd to_default) locations_options,
                        Label ''---'',
                        Enumerator ''Ignore missing'' ''ignore_component_not_in_location'' ''false'' yes_no,
                        Enumerator ''Ignore errors'' ''ignore_location_errors'' ''false'' yes_no])))
      else Inr None)"

text \<open>
  Modelled from the spec: the comparison \<^verbatim>\<open>source_location == target_location\<close> of two SDK
  entities is the identity comparison of the specification, by entity id; \<^verbatim>\<open>None\<close>, which
  \<^verbatim>\<open>session.get\<close> returns for an id it does not find, equals only \<^verbatim>\<open>None\<close>.
\<close>

fun entity_eq :: "location option \<Rightarrow> location option \<Rightarrow> bool" where
  "entity_eq None None = True"
| "entity_eq (Some a) (Some b) = (loc_id a = loc_id b)"
| "entity_eq _ _ = False"

datatype reply =
    Response bool string
  | Interface "item list option"

text \<open>
  \<^verbatim>\<open>launch\<close>: what the handler returns, and the request it hands to \<^verbatim>\<open>transfer_components\<close>
  when it starts the thread. A missing key is Python's KeyError.
\<close>

definition launch :: "catalog \<Rightarrow> action_event \<Rightarrow> exn + (reply \<times> request option)" where
  "launch session event =
     (case ev_values event of
        Some submitted \<Rightarrow>
          (case map_of submitted ''from_location'' of
             None \<Rightarrow> Inl KeyError
           | Some from_location \<Rightarrow>
               (case map_of submitted ''to_location'' of
                  None \<Rightarrow> Inl KeyError
                | Some to_location \<Rightarrow>
                    (let source_location = get_location session from_location;
                         target_location = get_location session to_location
                     in if entity_eq source_location target_location
                        then Inr (Response False ''Source and target locations are the same.'', None)
                        else
                          (case ev_user_id event of
                             None \<Rightarrow> Inl KeyError
                           | Some user_id \<Rightarrow>
                               (case ev_selection event of
                                  None \<Rightarrow> Inl KeyError
                                | Some entities \<Rightarrow>
                                    Inr (Response True ''Transferring components...'',
                                         Some \<lparr>req_entities = entities,
                                               req_source = source_location,
                                               req_target = target_location,
                                               req_user_id = Some user_id,
                                               ignore_component_not_in_location =
                                                 (map_of submitted ''ignore_component_not_in_location'' = Some ''true''),
                                               ignore_location_errors =
                                                 (map_of submitted ''ignore_location_errors'' = Some ''true'')\<rparr>))))))
      | None \<Rightarrow>
          (case interface session [] of
             Inl e \<Rightarrow> Inl e
           | Inr form \<Rightarrow> Inr (Interface form, None)))"

text \<open>
  The thread of one launch, run to its end: the state the engine leaves, or \<open>None\<close> when the
  handler builtin_server no thread.
\<close>

definition launch_thread ::
  "env \<Rightarrow> catalog \<Rightarrow> action_event \<Rightarrow> (string \<times> component) list \<Rightarrow> world option" where
  "launch_thread env session event pres =
     (case launch session event of
        Inr (_, Some req) \<Rightarrow> Some (transfer_components env req pres)
      | _ \<Rightarrow> None)"

section \<open>Location hooks\<close>






















section \<open>Reading a trace\<close>

fun attempts :: "event list \<Rightarrow> (component \<times> exn option) list" where
  "attempts [] = []"
| "attempts (CopyAttempt c r # es) = (c, r) # attempts es"
| "attempts (_ # es) = attempts es"

fun commits :: "event list \<Rightarrow> job list" where
  "commits [] = []"
| "commits (Committed j # es) = j # commits es"
| "commits (_ # es) = commits es"


text \<open>The copies that moved bytes: the attempts that returned.\<close>

definition byte_copies :: "event list \<Rightarrow> component list" where
  "byte_copies es = map fst (filter (\<lambda>a. snd a = None) (attempts es))"



section \<open>The error policy and the progress messages, as the specification words them\<close>

text \<open>
  The precedence table of the specification: a copy that returns, or that finds the component
  already in the target, is a success; a component missing from the source is tolerated under
  either flag; any other location error only under \<open>ignore_location_errors\<close>; nothing else is.
\<close>

fun tolerated :: "request \<Rightarrow> exn option \<Rightarrow> bool" where
  "tolerated req None = True"
| "tolerated req (Some ComponentInLocationError) = True"
| "tolerated req (Some ComponentNotInLocationError) =
     (ignore_component_not_in_location req \<or> ignore_location_errors req)"
| "tolerated req (Some LocationError) = ignore_location_errors req"
| "tolerated req (Some _) = False"

text \<open>What the engine logs after a copy, by the outcome of the copy.\<close>

fun copy_log :: "request \<Rightarrow> component \<Rightarrow> exn option \<Rightarrow> event list" where
  "copy_log req c None = []"
| "copy_log req c (Some ComponentInLocationError) = [LogInfo (AlreadyInTarget c)]"
| "copy_log req c (Some e) = (if tolerated req (Some e) then [LogException (FailedToAdd e)] else [])"





section \<open>Notions the claims use\<close>

text \<open>
  The eligible locations of the interface form: those with a configured accessor whose name is
  not one of the built-in ones.
\<close>

definition eligible :: "location list \<Rightarrow> location list" where
  "eligible locations =
     filter (\<lambda>l. loc_accessor l \<and> loc_name l \<notin> set excluded_locations) locations"





section \<open>Example inputs\<close>

definition vault_a :: location where
  "vault_a = \<lparr>loc_id = ''loc-a'', loc_name = ''vault-A'', loc_label = Some ''Vault A'',
              loc_accessor = True, loc_priority = 10\<rparr>"

definition vault_b :: location where
  "vault_b = \<lparr>loc_id = ''loc-b'', loc_name = ''vault-B'', loc_label = None,
              loc_accessor = True, loc_priority = 20\<rparr>"

definition one_version :: "selection_item list" where
  "one_version = [\<lparr>entityType = ''assetversion'', entityId = ''v1''\<rparr>]"

text \<open>A catalog in which every query finds the same two components, and copies that do not fail.\<close>

definition two_components :: env where
  "two_components = \<lparr>query = (\<lambda>q. Inr [''c1'', ''c2'']), hash_rank = (\<lambda>c. 0), copy_fault = (\<lambda>c. None)\<rparr>"

definition faulty_transfer :: env where
  "faulty_transfer = \<lparr>query = (\<lambda>q. Inr [''c1'', ''c2'']), hash_rank = (\<lambda>c. 0),
                       copy_fault = (\<lambda>c. Some LocationError)\<rparr>"


definition strict_request :: request where
  "strict_request =
     \<lparr>req_entities = one_version, req_source = Some vault_a, req_target = Some vault_b,
      req_user_id = Some ''u1'', ignore_component_not_in_location = False,
      ignore_location_errors = False\<rparr>"

definition empty_request :: request where
  "empty_request = strict_request\<lparr>req_entities := []\<rparr>"

definition lenient_request :: request where
  "lenient_request = strict_request\<lparr>ignore_component_not_in_location := True\<rparr>"

text \<open>The state right before the first copy of a batch of two components.\<close>

definition first_progress :: "request \<Rightarrow> (string \<times> component) list \<Rightarrow> world" where
  "first_progress req pres =
     commit (set_data (json_description (progress_description 1 2))
       (log_info (TransferringComponent 1 2) (create_job req pres)))"

text \<open>A built-in location, which the form leaves out, and two catalogs for the handlers.\<close>

definition builtin_server :: location where
  "builtin_server = \<lparr>loc_id = ''loc-s'', loc_name = ''ftrack.server'', loc_label = None,
              loc_accessor = True, loc_priority = 0\<rparr>"

definition two_vaults :: catalog where
  "two_vaults = \<lparr>get_location = (\<lambda>i. if i = ''loc-a'' then Some vault_a
                                       else if i = ''loc-b'' then Some vault_b else None),
                 all_locations = [vault_b, builtin_server, vault_a]\<rparr>"

definition one_vault :: catalog where
  "one_vault = two_vaults\<lparr>all_locations := [builtin_server, vault_a]\<rparr>"

definition same_location_event :: action_event where
  "same_location_event =
     \<lparr>ev_values = Some [(''from_location'', ''loc-a''), (''to_location'', ''loc-a'')],
      ev_selection = Some one_version, ev_user_id = Some ''u1''\<rparr>"








section \<open>Facts about traces\<close>

lemma attempts_append: "attempts (xs @ ys) = attempts xs @ attempts ys"
  by (induction xs rule: attempts.induct) simp_all











section \<open>Facts about one copy\<close>

lemma copy_step_fst:
  "fst (copy_step env req c w) =
     (let r = copy_outcome env (req_target req) (req_source req) (present w) c
      in if tolerated req r then None else r)"
  by (cases "copy_outcome env (req_target req) (req_source req) (present w) c";
      cases "the (copy_outcome env (req_target req) (req_source req) (present w) c)")
     (simp_all add: copy_step_def add_component_def Let_def)

lemma copy_step_trace:
  "trace (snd (copy_step env req c w)) =
     trace w @ CopyAttempt c (copy_outcome env (req_target req) (req_source req) (present w) c)
       # copy_log req c (copy_outcome env (req_target req) (req_source req) (present w) c)"
  by (cases "copy_outcome env (req_target req) (req_source req) (present w) c";
      cases "the (copy_outcome env (req_target req) (req_source req) (present w) c)")
     (simp_all add: copy_step_def add_component_def Let_def emit_def log_info_def log_exception_def)


lemma copy_step_present:
  "present (snd (copy_step env req c w)) =
     (case (copy_outcome env (req_target req) (req_source req) (present w) c, req_target req) of
        (None, Some t) \<Rightarrow> (loc_id t, c) # present w
      | _ \<Rightarrow> present w)"
  by (cases "copy_outcome env (req_target req) (req_source req) (present w) c";
      cases "the (copy_outcome env (req_target req) (req_source req) (present w) c)")
     (simp_all add: copy_step_def add_component_def Let_def emit_def log_info_def log_exception_def)

section \<open>Facts about the batch loop\<close>






section \<open>Facts about a whole run\<close>

lemma create_job_facts:
  "trace (create_job req pres) =
     [Created (new_job req), LogInfo (CreatingJob (req_user_id req)), Committed (new_job req)]"
  "job (create_job req pres) = new_job req"
  "server_job (create_job req pres) = Some (new_job req)"
  "present (create_job req pres) = pres"
  by (simp_all add: create_job_def commit_def log_info_def emit_def)






lemma transfer_loop_all_present:
  assumes "req_target req = Some t"
  shows "\<forall>c \<in> set comps. (loc_id t, c) \<in> set (present w) \<Longrightarrow>
         fst (transfer_loop env req amount i comps w) = None
         \<and> present (snd (transfer_loop env req amount i comps w)) = present w
         \<and> attempts (trace (snd (transfer_loop env req amount i comps w))) =
             attempts (trace w) @ map (\<lambda>c. (c, Some ComponentInLocationError)) comps
         \<and> set (trace w) \<union> (\<lambda>c. LogInfo (AlreadyInTarget c)) ` set comps
             \<subseteq> set (trace (snd (transfer_loop env req amount i comps w)))"
proof (induction comps arbitrary: i w)
  case Nil
  show ?case by simp
next
  case (Cons c rest)
  define w2 where "w2 = commit (set_data (json_description (progress_description i amount))
                           (log_info (TransferringComponent i amount) w))"
  define w3 where "w3 = snd (copy_step env req c w2)"
  have w2: "present w2 = present w"
    "trace w2 = trace w @ [LogInfo (TransferringComponent i amount), Committed (job w2)]"
    by (simp_all add: w2_def commit_def set_data_def log_info_def emit_def)
  have outcome: "copy_outcome env (req_target req) (req_source req) (present w2) c
      = Some ComponentInLocationError"
    using Cons.prems assms w2 by (simp add: copy_outcome_def)
  have cs: "copy_step env req c w2 = (None, w3)"
    using copy_step_fst [of env req c w2] outcome by (simp add: w3_def prod_eq_iff)
  have w3: "present w3 = present w"
    "trace w3 = trace w2 @ [CopyAttempt c (Some ComponentInLocationError), LogInfo (AlreadyInTarget c)]"
    using outcome w2 by (simp_all add: w3_def copy_step_present copy_step_trace)
  have step: "transfer_loop env req amount i (c # rest) w = transfer_loop env req amount (Suc i) rest w3"
    using cs [unfolded w2_def] by (simp add: Let_def)
  have "\<forall>c \<in> set rest. (loc_id t, c) \<in> set (present w3)"
    using Cons.prems w3 by simp
  from Cons.IH [OF this, of "Suc i"] show ?case
    unfolding step using w3 w2 by (auto simp: attempts_append)
qed

section \<open>Facts about the resolver\<close>






section \<open>Facts about the example inputs\<close>

lemma resolve_two:
  "get_components_in_location two_components one_version (Some vault_a) = Inr [''c1'', ''c2'']"
  by code_simp


lemma strict_request_simps:
  "req_entities strict_request = one_version" "req_source strict_request = Some vault_a"
  "req_target strict_request = Some vault_b" "req_user_id strict_request = Some ''u1''"
  "\<not> ignore_component_not_in_location strict_request" "\<not> ignore_location_errors strict_request"
  by (simp_all add: strict_request_def)

lemma resolve_none: "get_components_in_location env [] loc = Inr []"
  by (simp add: get_components_in_location_def component_queries_def)


lemma example_outcomes:
  "fst (add_component two_components (req_target strict_request) ''c1'' (req_source strict_request)
     (first_progress strict_request [(''loc-b'', ''c1'')])) = Some ComponentInLocationError"
  "fst (add_component two_components (req_target strict_request) ''c1'' (req_source strict_request)
     (first_progress strict_request [])) = Some ComponentNotInLocationError"
  "fst (add_component two_components (req_target lenient_request) ''c1'' (req_source lenient_request)
     (first_progress lenient_request [])) = Some ComponentNotInLocationError"
  "fst (add_component faulty_transfer (req_target strict_request) ''c1'' (req_source strict_request)
     (first_progress strict_request [(''loc-a'', ''c1'')])) = Some LocationError"
  by code_simp+

lemma lenient_request_simps:
  "ignore_component_not_in_location lenient_request" "\<not> ignore_location_errors lenient_request"
  by (simp_all add: lenient_request_def strict_request_def)

lemma two_vaults_eligible:
  "sort_key loc_priority (eligible (all_locations two_vaults)) = [vault_a, vault_b]"
  "eligible (all_locations one_vault) = [vault_a]"
  by code_simp+




section \<open>Facts about the handlers\<close>

lemma eligible_sorted:
  "filter (\<lambda>location. loc_name location \<notin> set excluded_locations)
     (sort_key loc_priority (filter loc_accessor locations)) =
   sort_key loc_priority (eligible locations)"
  by (simp add: eligible_def filter_sort conj_commute)

section \<open>Facts about the location hooks\<close>





section \<open>The claims\<close>

text \<open>
  C1. For the component at any position of a batch, a copy that raises is classified in the
  order of the \<^verbatim>\<open>except\<close> clauses. Already present in the target: the engine logs it and goes on
  with the rest of the batch. Not present in the source: it logs the exception and goes on
  exactly when \<open>ignore_component_not_in_location\<close> or \<open>ignore_location_errors\<close> is set, and
  otherwise the exception leaves the loop and the rest of the batch is not touched. Any other
  location error: it logs and goes on exactly when \<open>ignore_location_errors\<close> is set, and
  otherwise the exception leaves the loop.
\<close>

theorem copy_failure_classification:
  assumes "w2 = commit (set_data (json_description (progress_description i amount))
                   (log_info (TransferringComponent i amount) w))"
    and "add_component env (req_target req) c (req_source req) w2 = (Some e, w3)"
  shows "(e = ComponentInLocationError \<longrightarrow>
            transfer_loop env req amount i (c # rest) w =
              transfer_loop env req amount (Suc i) rest (log_info (AlreadyInTarget c) w3))
       \<and> (e = ComponentNotInLocationError \<longrightarrow>
            transfer_loop env req amount i (c # rest) w =
              (if ignore_component_not_in_location req \<or> ignore_location_errors req
               then transfer_loop env req amount (Suc i) rest (log_exception (FailedToAdd e) w3)
               else (Some e, w3)))
       \<and> (e = LocationError \<longrightarrow>
            transfer_loop env req amount i (c # rest) w =
              (if ignore_location_errors req
               then transfer_loop env req amount (Suc i) rest (log_exception (FailedToAdd e) w3)
               else (Some e, w3)))"
  using assms(2) unfolding assms(1)
  by (simp add: copy_step_def Let_def)

theorem copy_failure_classification_witness:
  "transfer_loop two_components strict_request 2 1 [''c1'', ''c2''] (create_job strict_request [(''loc-b'', ''c1'')]) =
     transfer_loop two_components strict_request 2 2 [''c2'']
       (log_info (AlreadyInTarget ''c1'')
          (snd (add_component two_components (req_target strict_request) ''c1'' (req_source strict_request)
             (first_progress strict_request [(''loc-b'', ''c1'')]))))
   \<and> transfer_loop two_components strict_request 2 1 [''c1'', ''c2''] (create_job strict_request []) =
       (Some ComponentNotInLocationError,
        snd (add_component two_components (req_target strict_request) ''c1'' (req_source strict_request)
             (first_progress strict_request [])))
   \<and> transfer_loop two_components lenient_request 2 1 [''c1'', ''c2''] (create_job lenient_request []) =
       transfer_loop two_components lenient_request 2 2 [''c2'']
         (log_exception (FailedToAdd ComponentNotInLocationError)
            (snd (add_component two_components (req_target lenient_request) ''c1'' (req_source lenient_request)
               (first_progress lenient_request []))))
   \<and> transfer_loop faulty_transfer strict_request 2 1 [''c1'', ''c2''] (create_job strict_request [(''loc-a'', ''c1'')]) =
       (Some LocationError,
        snd (add_component faulty_transfer (req_target strict_request) ''c1'' (req_source strict_request)
             (first_progress strict_request [(''loc-a'', ''c1'')])))"
proof -
  have pair: "p = (Some e, snd p)" if "fst p = Some e" for p :: "exn option \<times> world" and e
    using that by (simp add: prod_eq_iff)
  note run = copy_failure_classification [where rest = "[''c2'']", OF first_progress_def pair]
  show ?thesis
    using run [OF example_outcomes(1)] run [OF example_outcomes(2)]
      run [OF example_outcomes(3)] run [OF example_outcomes(4)]
    by (simp add: strict_request_simps lenient_request_simps numeral_2_eq_2)
qed







text \<open>
  C5. A launch whose submitted source and target locations are the same entity is answered at
  once with the response \<^verbatim>\<open>{success: False, message: 'Source and target locations are the
  same.'}\<close>: the handler returns it as a value, starts no thread, and so no Job is created.
\<close>

theorem same_location_is_rejected:
  assumes "ev_values event = Some submitted"
    and "map_of submitted ''from_location'' = Some from_location"
    and "map_of submitted ''to_location'' = Some to_location"
    and "entity_eq (get_location session from_location) (get_location session to_location)"
  shows "launch session event = Inr (Response False ''Source and target locations are the same.'', None)
         \<and> launch_thread env session event pres = None"
  using assms by (simp add: launch_def launch_thread_def)

theorem same_location_is_rejected_witness:
  "launch two_vaults same_location_event =
     Inr (Response False ''Source and target locations are the same.'', None)
   \<and> launch_thread two_components two_vaults same_location_event [] = None"
  using same_location_is_rejected [of same_location_event
      "[(''from_location'', ''loc-a''), (''to_location'', ''loc-a'')]" "''loc-a''" "''loc-a''" two_vaults
      two_components "[]"]
  by (simp add: same_location_event_def two_vaults_def)

text \<open>
  C6. When the selection resolves to no component, the run ends with status done, in memory
  and as persisted: no copy is attempted, the completion is logged with a count of 0, and the
  persisted statuses are running, then done; failed is never among them.
\<close>

theorem empty_batch_is_done:
  assumes "get_components_in_location env (req_entities req) (req_source req) = Inr []"
    and "w = transfer_components env req pres"
  shows "job_status (job w) = Done \<and> server_job w = Some (job w)
         \<and> attempts (trace w) = [] \<and> byte_copies (trace w) = []
         \<and> LogInfo (TransferComplete 0) \<in> set (trace w)
         \<and> map job_status (commits (trace w)) = [Running, Done]"
  using assms
  by (simp add: transfer_components_def try_body_def create_job_def commit_def set_status_def
      log_info_def emit_def new_job_def byte_copies_def)

theorem empty_batch_is_done_witness:
  "job_status (job (transfer_components two_components empty_request [])) = Done
   \<and> attempts (trace (transfer_components two_components empty_request [])) = []
   \<and> LogInfo (TransferComplete 0) \<in> set (trace (transfer_components two_components empty_request []))
   \<and> map job_status (commits (trace (transfer_components two_components empty_request []))) = [Running, Done]"
  using empty_batch_is_done [OF _ refl, of two_components empty_request "[]"]
  by (simp add: resolve_none empty_request_def)

text \<open>
  C7. When every resolved component is already present in the target location, every copy
  attempt raises the already-present error, each is logged and absorbed, the Job ends as done,
  no bytes are copied and the presence records are left as they were; a second run of the
  same request on the state the first one left ends as done again, with no bytes copied.
\<close>

theorem already_transferred_is_idempotent:
  assumes "get_components_in_location env (req_entities req) (req_source req) = Inr comps"
    and "req_target req = Some t"
    and "\<forall>c \<in> set comps. (loc_id t, c) \<in> set pres"
    and "first = transfer_components env req pres"
    and "second = transfer_components env req (present first)"
  shows "job_status (job first) = Done \<and> server_job first = Some (job first)
         \<and> attempts (trace first) = map (\<lambda>c. (c, Some ComponentInLocationError)) comps
         \<and> (\<forall>c \<in> set comps. LogInfo (AlreadyInTarget c) \<in> set (trace first))
         \<and> byte_copies (trace first) = []
         \<and> present first = pres
         \<and> job_status (job second) = Done \<and> server_job second = Some (job second)
         \<and> byte_copies (trace second) = []"
proof -
  have run: "job_status (job (transfer_components env req p)) = Done
      \<and> server_job (transfer_components env req p) = Some (job (transfer_components env req p))
      \<and> attempts (trace (transfer_components env req p)) =
          map (\<lambda>c. (c, Some ComponentInLocationError)) comps
      \<and> (\<forall>c \<in> set comps. LogInfo (AlreadyInTarget c) \<in> set (trace (transfer_components env req p)))
      \<and> present (transfer_components env req p) = p"
    if p: "\<forall>c \<in> set comps. (loc_id t, c) \<in> set p" for p
  proof -
    define w1 where "w1 = log_info (TransferringTotal (length comps)) (create_job req p)"
    define w2 where "w2 = snd (transfer_loop env req (length comps) 1 comps w1)"
    have w1: "present w1 = p" "attempts (trace w1) = []"
      by (simp_all add: w1_def log_info_def emit_def create_job_facts)
    from transfer_loop_all_present [OF assms(2), of comps w1 env "length comps" 1] p w1
    have loop: "transfer_loop env req (length comps) 1 comps w1 = (None, w2)"
      and w2: "present w2 = p"
        "attempts (trace w2) = map (\<lambda>c. (c, Some ComponentInLocationError)) comps"
        "(\<lambda>c. LogInfo (AlreadyInTarget c)) ` set comps \<subseteq> set (trace w2)"
      by (simp_all add: w2_def prod_eq_iff)
    have tc: "transfer_components env req p = log_info (TransferComplete (length comps)) (commit (set_status Done w2))"
      using assms(1) loop by (simp add: transfer_components_def try_body_def Let_def w1_def)
    show ?thesis
      using w2 by (auto simp: tc log_info_def commit_def set_status_def emit_def attempts_append)
  qed
  have no_copies: "byte_copies es = []"
    if "attempts es = map (\<lambda>c. (c, Some ComponentInLocationError)) comps" for es
    using that by (simp add: byte_copies_def filter_empty_conv)
  from run [OF assms(3)] have first: "present first = pres"
    by (simp add: assms(4))
  with assms(3) have "\<forall>c \<in> set comps. (loc_id t, c) \<in> set (present first)" by simp
  from run [OF this] run [OF assms(3)] no_copies show ?thesis
    unfolding assms(4,5) by simp
qed

theorem already_transferred_is_idempotent_witness:
  "job_status (job (transfer_components two_components strict_request [(''loc-b'', ''c1''), (''loc-b'', ''c2'')])) = Done
   \<and> attempts (trace (transfer_components two_components strict_request [(''loc-b'', ''c1''), (''loc-b'', ''c2'')]))
       = [(''c1'', Some ComponentInLocationError), (''c2'', Some ComponentInLocationError)]
   \<and> byte_copies (trace (transfer_components two_components strict_request [(''loc-b'', ''c1''), (''loc-b'', ''c2'')])) = []
   \<and> job_status (job (transfer_components two_components strict_request
        (present (transfer_components two_components strict_request [(''loc-b'', ''c1''), (''loc-b'', ''c2'')])))) = Done
   \<and> byte_copies (trace (transfer_components two_components strict_request
        (present (transfer_components two_components strict_request [(''loc-b'', ''c1''), (''loc-b'', ''c2'')])))) = []"
  using already_transferred_is_idempotent [OF _ _ _ refl refl, of two_components strict_request
      "[''c1'', ''c2'']" vault_b "[(''loc-b'', ''c1''), (''loc-b'', ''c2'')]"]
  by (simp add: resolve_two strict_request_simps vault_b_def)



text \<open>
  C9. The interface handler returns a form only for a request without submitted values and
  with at least two eligible locations; the default of "From location" is then the first
  eligible location in priority order and the default of "To location" the second, and with
  two or more eligible locations the form is returned. With fewer than two, the request fails
  with an IndexError, whether the handler is called directly or through \<^verbatim>\<open>launch\<close>.
\<close>

theorem interface_needs_two_locations:
  "(interface session submitted = Inr (Some form) \<longrightarrow>
      submitted = [] \<and> 2 \<le> length (eligible (all_locations session))
      \<and> form ! 1 = Enumerator ''From location'' ''from_location''
                     (loc_id (sort_key loc_priority (eligible (all_locations session)) ! 0))
                     (map (\<lambda>l. (label_or_name l, loc_id l))
                        (sort_key loc_priority (eligible (all_locations session))))
      \<and> form ! 2 = Enumerator ''To location'' ''to_location''
                     (loc_id (sort_key loc_priority (eligible (all_locations session)) ! 1))
                     (map (\<lambda>l. (label_or_name l, loc_id l))
                        (sort_key loc_priority (eligible (all_locations session)))))
   \<and> (submitted = [] \<and> 2 \<le> length (eligible (all_locations session)) \<longrightarrow>
        (\<exists>form. interface session submitted = Inr (Some form)))
   \<and> (submitted = [] \<and> length (eligible (all_locations session)) < 2 \<longrightarrow>
        interface session submitted = Inl IndexError)
   \<and> (ev_values event = None \<and> length (eligible (all_locations session)) < 2 \<longrightarrow>
        launch session event = Inl IndexError)"
proof -
  define opts where "opts = map (\<lambda>l. (label_or_name l, loc_id l))
      (sort_key loc_priority (eligible (all_locations session)))"
  have len: "length opts = length (eligible (all_locations session))"
    by (simp add: opts_def)
  have iface: "interface session [] =
      (case py_index opts 0 of
         Inl e \<Rightarrow> Inl e
       | Inr from_default \<Rightarrow>
           (case py_index opts 1 of
              Inl e \<Rightarrow> Inl e
            | Inr to_default \<Rightarrow>
                Inr (Some
                  [Label ''Transfer components between locations'',
                   Enumerator ''From location'' ''from_location'' (snd from_default) opts,
                   Enumerator ''To location'' ''to_location'' (snd to_default) opts,
                   Label ''---'',
                   Enumerator ''Ignore missing'' ''ignore_component_not_in_location'' ''false'' yes_no,
                   Enumerator ''Ignore errors'' ''ignore_location_errors'' ''false'' yes_no])))"
    unfolding interface_def Let_def eligible_sorted opts_def by simp
  have other: "interface session submitted = Inr None" if "submitted \<noteq> []"
    using that by (simp add: interface_def)
  have via_launch: "launch session event = Inl IndexError"
    if "ev_values event = None" "interface session [] = Inl IndexError"
    using that by (simp add: launch_def)
  show ?thesis
  proof (cases "submitted = []")
    case False
    have "interface session [] = Inl IndexError" if "length opts < 2"
    proof -
      from that have "py_index opts 0 = Inl IndexError \<or> py_index opts 1 = Inl IndexError"
        by (auto simp: py_index_def)
      then show ?thesis
        using iface by (auto simp: py_index_def split: if_splits)
    qed
    then show ?thesis using False other via_launch len by simp
  next
    case True
    show ?thesis
    proof (cases "2 \<le> length opts")
      case True
      then have "py_index opts 0 = Inr (opts ! 0)" "py_index opts 1 = Inr (opts ! 1)"
        by (auto simp: py_index_def)
      moreover have "snd (opts ! 0) = loc_id (sort_key loc_priority (eligible (all_locations session)) ! 0)"
        "snd (opts ! 1) = loc_id (sort_key loc_priority (eligible (all_locations session)) ! 1)"
        using True len nth_map [of 0 "sort_key loc_priority (eligible (all_locations session))"]
          nth_map [of 1 "sort_key loc_priority (eligible (all_locations session))"]
        by (simp_all add: opts_def del: length_greater_0_conv)
      ultimately show ?thesis
        using True len \<open>submitted = []\<close> iface by (auto simp: opts_def)
    next
      case False
      then have "py_index opts 0 = Inl IndexError \<or> py_index opts 1 = Inl IndexError"
        by (auto simp: py_index_def)
      then have "interface session [] = Inl IndexError"
        using iface by (auto simp: py_index_def split: if_splits)
      then show ?thesis
        using False len \<open>submitted = []\<close> via_launch by simp
    qed
  qed
qed

theorem interface_needs_two_locations_witness:
  "(\<exists>form. interface two_vaults [] = Inr (Some form)
      \<and> form ! 1 = Enumerator ''From location'' ''from_location'' ''loc-a''
                     [(''Vault A'', ''loc-a''), (''vault-B'', ''loc-b'')]
      \<and> form ! 2 = Enumerator ''To location'' ''to_location'' ''loc-b''
                     [(''Vault A'', ''loc-a''), (''vault-B'', ''loc-b'')])
   \<and> interface one_vault [] = Inl IndexError
   \<and> launch one_vault (same_location_event\<lparr>ev_values := None\<rparr>) = Inl IndexError"
proof -
  have l2: "length (eligible (all_locations two_vaults)) = 2"
    using arg_cong [OF two_vaults_eligible(1), of length] by simp
  from interface_needs_two_locations [of two_vaults "[]"] l2
  obtain form where f: "interface two_vaults [] = Inr (Some form)" by auto
  from interface_needs_two_locations [of two_vaults "[]" form] f
  have "form ! 1 = Enumerator ''From location'' ''from_location'' ''loc-a''
                     [(''Vault A'', ''loc-a''), (''vault-B'', ''loc-b'')]
      \<and> form ! 2 = Enumerator ''To location'' ''to_location'' ''loc-b''
                     [(''Vault A'', ''loc-a''), (''vault-B'', ''loc-b'')]"
    by (simp add: two_vaults_eligible label_or_name_def vault_a_def vault_b_def)
  moreover have "interface one_vault [] = Inl IndexError
      \<and> launch one_vault (same_location_event\<lparr>ev_values := None\<rparr>) = Inl IndexError"
    using interface_needs_two_locations [of one_vault "[]" _ "same_location_event\<lparr>ev_values := None\<rparr>"]
    by (simp add: two_vaults_eligible)
  ultimately show ?thesis using f by blast
qed




end
